theory Spec2Isabelle
  imports Complex_Main "HOL-Library.Word"
begin

section \<open>Numbers, buffers and the session log\<close>

text \<open>
  A screenshot is a Node \<^verbatim>\<open>Buffer\<close>: a sequence of bytes, of which the scripts only read
  \<^verbatim>\<open>length\<close>.

  JavaScript numbers are modelled by the real numbers they denote, together with the three
  special values a division can produce. Rounding of intermediate results to the nearest
  double is not part of the model; the lengths, pixel positions and years that occur in the
  scripts are small integers, for which the comparisons and \<^verbatim>\<open>Math.round\<close> calls below give the
  same answer on doubles as on the exact quotients.
\<close>

type_synonym buffer = "8 word list"

datatype jsnum = Num real | PosInf | NegInf | NaN

text \<open>\<^verbatim>\<open>a / b\<close> for finite, non-negative-zero operands: a zero divisor gives an infinity
  of the sign of the dividend, and \<^verbatim>\<open>0 / 0\<close> is \<^verbatim>\<open>NaN\<close>.\<close>

definition js_div :: "real \<Rightarrow> real \<Rightarrow> jsnum" where
  "js_div a b =
     (if b = 0 then (if a = 0 then NaN else if 0 < a then PosInf else NegInf)
      else Num (a / b))"

text \<open>\<^verbatim>\<open>x * c\<close> for a finite constant \<open>c\<close>.\<close>

fun js_mul :: "jsnum \<Rightarrow> real \<Rightarrow> jsnum" where
  "js_mul (Num a) c = Num (a * c)"
| "js_mul PosInf c = (if 0 < c then PosInf else if c < 0 then NegInf else NaN)"
| "js_mul NegInf c = (if 0 < c then NegInf else if c < 0 then PosInf else NaN)"
| "js_mul NaN c = NaN"

text \<open>\<^verbatim>\<open>x > c\<close> for a finite constant \<open>c\<close>: every comparison with \<^verbatim>\<open>NaN\<close> is false.\<close>

fun js_gt :: "jsnum \<Rightarrow> real \<Rightarrow> bool" where
  "js_gt (Num a) c = (c < a)"
| "js_gt PosInf c = True"
| "js_gt NegInf c = False"
| "js_gt NaN c = False"

text \<open>\<^verbatim>\<open>Math.round\<close>: the nearest integer, a tie going towards \<open>+\<infinity>\<close>.\<close>

definition Math_round :: "real \<Rightarrow> int" where
  "Math_round x = \<lfloor>x + 0.5\<rfloor>"

text \<open>
  \<^verbatim>\<open>log(message)\<close> prints the line and appends it to \<^verbatim>\<open>capture_log.txt\<close>. The log is the
  list of lines written so far (the timestamp prefix is left out). The two messages that
  print a number with \<^verbatim>\<open>toFixed(2)\<close> carry the number itself.
\<close>

datatype log_msg =
    Line string
  | ImageSizeDifference jsnum
  | FoundUniqueImage nat jsnum

type_synonym log = "log_msg list"

definition log :: "log_msg \<Rightarrow> log \<Rightarrow> log" where
  "log message lg = lg @ [message]"

section \<open>The change detector\<close>

record comparison =
  percentDiff :: jsnum
  hasSignificantChange :: bool

text \<open>\<^verbatim>\<open>compareScreenshots(before, after)\<close> of the enhanced and of the simplified script.\<close>

definition compareScreenshots :: "buffer \<Rightarrow> buffer \<Rightarrow> log \<Rightarrow> comparison \<times> log" where
  "compareScreenshots before after lg =
     (let sizeDiff = \<bar>real (length before) - real (length after)\<bar>;
          percentDiff = js_mul (js_div sizeDiff (real (length before))) 100;
          lg' = log (ImageSizeDifference percentDiff) lg
      in (\<lparr>percentDiff = percentDiff, hasSignificantChange = js_gt percentDiff 0.5\<rparr>, lg'))"

text \<open>\<^verbatim>\<open>hasSignificantChanges(before, after)\<close> of the toolbar-scan script.\<close>

definition hasSignificantChanges :: "buffer \<Rightarrow> buffer \<Rightarrow> log \<Rightarrow> bool \<times> log" where
  "hasSignificantChanges before after lg =
     (let sizeDiff = \<bar>real (length before) - real (length after)\<bar>;
          percentDiff = js_mul (js_div sizeDiff (real (length before))) 100;
          lg' = log (ImageSizeDifference percentDiff) lg
      in (js_gt percentDiff 1, lg'))"

section \<open>The positional year estimate\<close>

text \<open>\<^verbatim>\<open>estimateYearFromPosition(x)\<close>, for a finite \<open>x\<close>.\<close>

definition estimateYearFromPosition :: "real \<Rightarrow> int" where
  "estimateYearFromPosition x =
     (let timelineStartX = (400 :: real);
          timelineEndX = (1600 :: real);
          startYear = (2002 :: int);
          endYear = (2024 :: int);
          yearSpan = endYear - startYear;
          pixelSpan = timelineEndX - timelineStartX;
          pixelsPerYear = pixelSpan / real_of_int yearSpan;
          yearOffset = Math_round ((x - timelineStartX) / pixelsPerYear);
          estimatedYear = startYear + yearOffset
      in estimatedYear)"

section \<open>Strings and regular expressions\<close>

text \<open>
  Strings are lists of 8-bit characters; the character set handed to the OCR engine is
  ASCII. \<^verbatim>\<open>toLowerCase\<close> and the case-insensitive flag act on the ASCII letters.
\<close>

definition to_lower :: "char \<Rightarrow> char" where
  "to_lower c =
     (case map_of (zip ''ABCDEFGHIJKLMNOPQRSTUVWXYZ'' ''abcdefghijklmnopqrstuvwxyz'') c of
        Some l \<Rightarrow> l | None \<Rightarrow> c)"

definition to_upper :: "char \<Rightarrow> char" where
  "to_upper c =
     (case map_of (zip ''abcdefghijklmnopqrstuvwxyz'' ''ABCDEFGHIJKLMNOPQRSTUVWXYZ'') c of
        Some u \<Rightarrow> u | None \<Rightarrow> c)"

definition digit :: "char \<Rightarrow> bool" where
  "digit c = (c \<in> set ''0123456789'')"

definition lower_az :: "char \<Rightarrow> bool" where
  "lower_az c = (c \<in> set ''abcdefghijklmnopqrstuvwxyz'')"

definition upper_AZ :: "char \<Rightarrow> bool" where
  "upper_AZ c = (c \<in> set ''ABCDEFGHIJKLMNOPQRSTUVWXYZ'')"

text \<open>\<^verbatim>\<open>\s\<close> on ASCII: space, tab, line feed, vertical tab, form feed, carriage return.\<close>

definition whitespace :: "char \<Rightarrow> bool" where
  "whitespace c = (c \<in> set [CHR '' '', CHR 0x09, CHR 0x0A, CHR 0x0B, CHR 0x0C, CHR 0x0D])"

text \<open>\<^verbatim>\<open>String(n)\<close> for an integer-valued number.\<close>

fun show_nat :: "nat \<Rightarrow> string" where
  "show_nat n =
     (if n < 10 then [''0123456789'' ! n]
      else show_nat (n div 10) @ [''0123456789'' ! (n mod 10)])"

declare show_nat.simps [simp del]

definition show_int :: "int \<Rightarrow> string" where
  "show_int i = (if i < 0 then ''-'' @ show_nat (nat (- i)) else show_nat (nat i))"

definition padStart :: "nat \<Rightarrow> char \<Rightarrow> string \<Rightarrow> string" where
  "padStart n c s = replicate (n - length s) c @ s"

definition trim :: "string \<Rightarrow> string" where
  "trim s = rev (dropWhile whitespace (rev (dropWhile whitespace s)))"

text \<open>
  The regular expressions of the scripts are sequences of literals, quantified character
  classes, alternatives of literals and capturing groups. A pattern is the list of its
  items; \<open>Rep p lo hi\<close> is the greedy quantifier \<^verbatim>\<open>{lo,hi}\<close> on the class \<open>p\<close> (no upper
  bound for \<^verbatim>\<open>+\<close> and \<^verbatim>\<open>*\<close>), \<open>Open\<close> and \<open>Close\<close> are the parentheses of a group.
\<close>

datatype item =
    Lit string
  | Rep "char \<Rightarrow> bool" nat "nat option"
  | Alts "string list"
  | Open
  | Close

fun first_some :: "('a \<Rightarrow> 'b option) \<Rightarrow> 'a list \<Rightarrow> 'b option" where
  "first_some f [] = None"
| "first_some f (x # xs) = (case f x of Some r \<Rightarrow> Some r | None \<Rightarrow> first_some f xs)"

text \<open>With the flag \<^verbatim>\<open>i\<close> a character matches a class when one of its two cases does.\<close>

definition cls :: "bool \<Rightarrow> (char \<Rightarrow> bool) \<Rightarrow> char \<Rightarrow> bool" where
  "cls ic p c = (if ic then p (to_lower c) \<or> p (to_upper c) else p c)"

definition canon :: "bool \<Rightarrow> string \<Rightarrow> string" where
  "canon ic s = (if ic then map to_upper s else s)"

definition starts_with :: "bool \<Rightarrow> string \<Rightarrow> string \<Rightarrow> bool" where
  "starts_with ic l s = (length l \<le> length s \<and> canon ic (take (length l) s) = canon ic l)"

text \<open>The first \<open>k\<close> characters of \<open>s\<close> are consumed: every open group, and the whole
  match at the bottom of the stack, grows by them.\<close>

definition consume :: "nat \<Rightarrow> string \<Rightarrow> string list \<Rightarrow> string list" where
  "consume k s accs = map (\<lambda>a. a @ take k s) accs"

text \<open>
  The backtracking matcher at a fixed start: \<open>m ic items s accs caps\<close> matches \<open>items\<close>
  against a prefix of \<open>s\<close>. A quantifier tries the longest run first and gives characters
  back one at a time; alternatives are tried from left to right.
\<close>

fun m :: "bool \<Rightarrow> item list \<Rightarrow> string \<Rightarrow> string list \<Rightarrow> string list \<Rightarrow>
          (string list \<times> string list) option" where
  "m ic [] s accs caps = Some (accs, caps)"
| "m ic (Lit l # r) s accs caps =
     (if starts_with ic l s then m ic r (drop (length l) s) (consume (length l) s accs) caps
      else None)"
| "m ic (Rep p lo hi # r) s accs caps =
     (let n = length (takeWhile (cls ic p) s);
          n' = (case hi of None \<Rightarrow> n | Some h \<Rightarrow> min h n)
      in first_some (\<lambda>k. m ic r (drop k s) (consume k s accs) caps) (rev [lo..<Suc n']))"
| "m ic (Alts ls # r) s accs caps =
     first_some (\<lambda>l. if starts_with ic l s
                      then m ic r (drop (length l) s) (consume (length l) s accs) caps
                      else None) ls"
| "m ic (Open # r) s accs caps = m ic r s ([] # accs) caps"
| "m ic (Close # r) s accs caps =
     (case accs of [] \<Rightarrow> None | a # as \<Rightarrow> m ic r s as (caps @ [a]))"

declare m.simps [simp del]

text \<open>\<^verbatim>\<open>s.match(re)\<close> for a regular expression without the flag \<^verbatim>\<open>g\<close>: the leftmost match,
  as the matched text and the list of its groups, or \<open>None\<close> for \<^verbatim>\<open>null\<close>.\<close>

definition re_match :: "bool \<Rightarrow> item list \<Rightarrow> string \<Rightarrow> (string \<times> string list) option" where
  "re_match ic items s =
     first_some (\<lambda>k. case m ic items (drop k s) [[]] [] of
                        Some ([w], caps) \<Rightarrow> Some (w, caps)
                      | _ \<Rightarrow> None) [0..<Suc (length s)]"

text \<open>\<^verbatim>\<open>matches[n]\<close>: index 0 is the matched text, an index past the groups is
  \<^verbatim>\<open>undefined\<close>.\<close>

definition group :: "string \<times> string list \<Rightarrow> nat \<Rightarrow> string option" where
  "group matches n =
     (if n = 0 then Some (fst matches)
      else if n \<le> length (snd matches) then Some (snd matches ! (n - 1)) else None)"

text \<open>Truthiness of a value that is a string, \<^verbatim>\<open>null\<close> or \<^verbatim>\<open>undefined\<close>.\<close>

definition truthy :: "string option \<Rightarrow> bool" where
  "truthy v = (case v of None \<Rightarrow> False | Some s \<Rightarrow> s \<noteq> [])"

section \<open>Date extraction and canonical dates\<close>

text \<open>\<^verbatim>\<open>/(\d{1,2})\/(\d{1,2})\/(\d{4})/\<close>\<close>

definition regexSlash :: "item list" where
  "regexSlash =
     [Open, Rep digit 1 (Some 2), Close, Lit ''/'',
      Open, Rep digit 1 (Some 2), Close, Lit ''/'',
      Open, Rep digit 4 (Some 4), Close]"

text \<open>\<^verbatim>\<open>/([a-z]{3})[a-z]*\s+(\d{1,2})[,\s]+(\d{4})/i\<close>\<close>

definition regexMonth :: "item list" where
  "regexMonth =
     [Open, Rep lower_az 3 (Some 3), Close, Rep lower_az 0 None, Rep whitespace 1 None,
      Open, Rep digit 1 (Some 2), Close,
      Rep (\<lambda>c. c = CHR '','' \<or> whitespace c) 1 None,
      Open, Rep digit 4 (Some 4), Close]"

definition monthNames :: "(string \<times> string) list" where
  "monthNames =
     [(''jan'', ''01''), (''feb'', ''02''), (''mar'', ''03''), (''apr'', ''04''),
      (''may'', ''05''), (''jun'', ''06''), (''jul'', ''07''), (''aug'', ''08''),
      (''sep'', ''09''), (''oct'', ''10''), (''nov'', ''11''), (''dec'', ''12'')]"

text \<open>\<^verbatim>\<open>s.replace(/[\/\s,:]/g, '-').replace(/[^a-zA-Z0-9-_]/g, '')\<close>\<close>

definition cleanup :: "string \<Rightarrow> string" where
  "cleanup s =
     filter (\<lambda>c. lower_az c \<or> upper_AZ c \<or> digit c \<or> c = CHR ''-'' \<or> c = CHR ''_'')
       (map (\<lambda>c. if c = CHR ''/'' \<or> whitespace c \<or> c = CHR '','' \<or> c = CHR '':''
                  then CHR ''-'' else c) s)"

text \<open>
  \<^verbatim>\<open>formatDateForFilename(dateString)\<close>; the argument is a string or \<^verbatim>\<open>null\<close>. A month that
  is not in \<^verbatim>\<open>monthNames\<close> reads as \<^verbatim>\<open>undefined\<close> and is printed so by the template. The
  \<^verbatim>\<open>catch\<close> branch is entered when a group of a match is \<^verbatim>\<open>undefined\<close>, whose \<^verbatim>\<open>padStart\<close>
  raises; both patterns have three groups, so this does not happen.
\<close>

definition formatDateForFilename :: "string option \<Rightarrow> string" where
  "formatDateForFilename dateString =
     (case dateString of
        None \<Rightarrow> ''unknown_date''
      | Some ds \<Rightarrow>
          if ds = [] then ''unknown_date''
          else
            (case re_match False regexSlash ds of
               Some matches \<Rightarrow>
                 (case (group matches 1, group matches 2, group matches 3) of
                    (Some g1, Some g2, Some year) \<Rightarrow>
                      year @ ''-'' @ padStart 2 (CHR ''0'') g1 @ ''-'' @ padStart 2 (CHR ''0'') g2
                  | _ \<Rightarrow> ''date_error'')
             | None \<Rightarrow>
                 (case re_match True regexMonth ds of
                    Some matches \<Rightarrow>
                      (case (group matches 1, group matches 2, group matches 3) of
                         (Some g1, Some g2, Some year) \<Rightarrow>
                           year @ ''-''
                             @ (case map_of monthNames (map to_lower g1) of
                                  Some month \<Rightarrow> month | None \<Rightarrow> ''undefined'')
                             @ ''-'' @ padStart 2 (CHR ''0'') g2
                       | _ \<Rightarrow> ''date_error'')
                  | None \<Rightarrow> cleanup ds)))"

text \<open>\<^verbatim>\<open>/older[\s~]+(\d{1,2}\/\d{1,2}\/\d{4})/\<close>\<close>

definition olderPattern :: "item list" where
  "olderPattern =
     [Lit ''older'', Rep (\<lambda>c. whitespace c \<or> c = CHR ''~'') 1 None,
      Open, Rep digit 1 (Some 2), Lit ''/'', Rep digit 1 (Some 2), Lit ''/'',
      Rep digit 4 (Some 4), Close]"

text \<open>\<^verbatim>\<open>/(\d{1,2}\/\d{1,2}\/\d{4})/\<close>\<close>

definition datePattern :: "item list" where
  "datePattern =
     [Open, Rep digit 1 (Some 2), Lit ''/'', Rep digit 1 (Some 2), Lit ''/'',
      Rep digit 4 (Some 4), Close]"

text \<open>\<^verbatim>\<open>/(Jan|Feb|Mar|Apr|May|Jun|Jul|Aug|Sep|Oct|Nov|Dec)[\s,]+\d{1,2}[\s,]+\d{4}/i\<close>\<close>

definition monthPattern :: "item list" where
  "monthPattern =
     [Open, Alts [''Jan'', ''Feb'', ''Mar'', ''Apr'', ''May'', ''Jun'',
                  ''Jul'', ''Aug'', ''Sep'', ''Oct'', ''Nov'', ''Dec''], Close,
      Rep (\<lambda>c. whitespace c \<or> c = CHR '','') 1 None, Rep digit 1 (Some 2),
      Rep (\<lambda>c. whitespace c \<or> c = CHR '','') 1 None, Rep digit 4 (Some 4)]"

record ocr_result =
  date :: "string option"
  raw :: "string option"
  error :: "string option"

text \<open>
  \<^verbatim>\<open>extractDateFromImage(imagePath)\<close> of the enhanced script. What the OCR engine does with
  the image is an input: \<open>Inr text\<close> when it recognises \<open>text\<close>, \<open>Inl message\<close> when one of
  its calls raises an error with that message.
\<close>

definition extractDateFromImage :: "string + string \<Rightarrow> log \<Rightarrow> ocr_result \<times> log" where
  "extractDateFromImage ocr lg =
     (case ocr of
        Inl message \<Rightarrow>
          (\<lparr>date = None, raw = None, error = Some message\<rparr>,
           log (Line (''OCR error: '' @ message)) lg)
      | Inr text \<Rightarrow>
          (let olderMatch = re_match False olderPattern text;
               dateMatch = re_match False datePattern text;
               monthMatch = re_match True monthPattern text
           in if olderMatch \<noteq> None \<and> truthy (group (the olderMatch) 1)
              then (\<lparr>date = group (the olderMatch) 1, raw = Some (trim text), error = None\<rparr>, lg)
              else if dateMatch \<noteq> None \<and> truthy (group (the dateMatch) 1)
              then (\<lparr>date = group (the dateMatch) 1, raw = Some (trim text), error = None\<rparr>, lg)
              else if monthMatch \<noteq> None \<and> truthy (group (the monthMatch) 0)
              then (\<lparr>date = group (the monthMatch) 0, raw = Some (trim text), error = None\<rparr>, lg)
              else (\<lparr>date = None, raw = Some (trim text), error = None\<rparr>, lg)))"

section \<open>The timeline scan of the enhanced script\<close>

definition COORDINATES :: string where
  "COORDINATES = ''5.55551247,-0.26162416''"

definition LOCATION_NAME :: string where
  "LOCATION_NAME = ''Accra, Ghana''"

definition START_YEAR :: int where
  "START_YEAR = 2019"

text \<open>
  The browser and the OCR engine are the environment of a run. Of the steps before the
  scan the model keeps the two screenshots around the click on the history icon and the
  baseline screenshot, and takes these steps to succeed. A probe of the scan is the click on
  the timeline, the full-page screenshot, its read-back and the screenshot of the date
  display: \<open>ProbeThrows message\<close> when one of these raises, otherwise \<open>Probed frame ocr\<close>
  with the bytes read back and what the OCR engine does with the date display. File-system
  writes are taken to succeed. \<open>errorScreenshot\<close> is the screenshot taken in the \<^verbatim>\<open>catch\<close>
  block: \<open>Some message\<close> when it raises in turn.
\<close>

datatype probe_outcome = ProbeThrows string | Probed buffer "string + string"

record environment =
  beforeClickData :: buffer
  afterClickData :: buffer
  baselineShot :: buffer
  probe :: "nat \<Rightarrow> probe_outcome"
  errorScreenshot :: "string option"
  CURRENT_YEAR :: int

record captured_image =
  position :: nat
  pointX :: int
  estimatedYear :: int
  detectedDateText :: "string option"
  formattedDate :: string
  uniquePath :: string
  dateDisplayPath :: string
  imagePercentDiff :: jsnum

record scan_state =
  baselineData :: buffer
  capturedImages :: "captured_image list"

definition numPoints :: nat where
  "numPoints = 30"

definition timelineStart :: real where
  "timelineStart = 1100"

definition timelineEndX :: real where
  "timelineEndX = 1600"

definition timelineY :: int where
  "timelineY = 90"

definition intervalWidth :: real where
  "intervalWidth = (timelineEndX - timelineStart) / real numPoints"

text \<open>The label of a sample:
  \<^verbatim>\<open>ocrResult.date ? formatDateForFilename(ocrResult.date) : `est_${estimatedYear}`\<close>\<close>

definition formattedDateOf :: "ocr_result \<Rightarrow> int \<Rightarrow> string" where
  "formattedDateOf ocrResult year =
     (if truthy (date ocrResult) then formatDateForFilename (date ocrResult)
      else ''est_'' @ show_int year)"

text \<open>\<^verbatim>\<open>LOCATION_NAME.replace(/[^a-z0-9]/gi, '_').toLowerCase()\<close>, then the label and the
  extension; the directory is left out.\<close>

definition sanitizedLocation :: string where
  "sanitizedLocation =
     map to_lower (map (\<lambda>c. if cls True (\<lambda>d. lower_az d \<or> digit d) c then c else CHR ''_'')
                     LOCATION_NAME)"

definition uniqueImageName :: "string \<Rightarrow> string" where
  "uniqueImageName label = sanitizedLocation @ ''_'' @ label @ ''.png''"

text \<open>
  One iteration of the scan loop, for the index \<open>i\<close>. An exception leaves the loop with its
  message; the log written so far stays on disk.
\<close>

definition scanPosition ::
    "environment \<Rightarrow> nat \<Rightarrow> scan_state \<times> log \<Rightarrow> (string \<times> log) + (scan_state \<times> log)" where
  "scanPosition env i sl =
     (let x = Math_round (timelineStart + real i * intervalWidth);
          year = estimateYearFromPosition (real_of_int x);
          lg1 = log (Line (''Exploring position '' @ show_nat (i + 1) @ ''/'' @ show_nat numPoints
                       @ '' at ('' @ show_int x @ '', '' @ show_int timelineY
                       @ '') - Estimated year: ~'' @ show_int year)) (snd sl)
      in case probe env i of
           ProbeThrows message \<Rightarrow> Inl (message, lg1)
         | Probed currentData ocr \<Rightarrow>
             (let (ocrResult, lg2) = extractDateFromImage ocr lg1;
                  label = formattedDateOf ocrResult year;
                  lg3 = log (Line (''Position '' @ show_nat (i + 1) @ '': Detected date text: \"''
                               @ (if truthy (raw ocrResult) then the (raw ocrResult) else ''None'')
                               @ ''\", Formatted: '' @ label)) lg2;
                  (comparison, lg4) = compareScreenshots (baselineData (fst sl)) currentData lg3
              in if hasSignificantChange comparison
                 then Inr (\<lparr>baselineData = currentData,
                            capturedImages = capturedImages (fst sl) @
                              [\<lparr>position = i + 1, pointX = x, estimatedYear = year,
                                detectedDateText = raw ocrResult, formattedDate = label,
                                uniquePath = uniqueImageName label,
                                dateDisplayPath = ''date_display_'' @ show_nat (i + 1) @ ''.png'',
                                imagePercentDiff = percentDiff comparison\<rparr>]\<rparr>,
                           log (FoundUniqueImage (i + 1) (percentDiff comparison)) lg4)
                 else Inr (fst sl, lg4)))"

text \<open>\<^verbatim>\<open>for (let i = 0; i < numPoints; i++)\<close>, over the list of its indices.\<close>

fun scanLoop ::
    "environment \<Rightarrow> nat list \<Rightarrow> scan_state \<times> log \<Rightarrow> (string \<times> log) + (scan_state \<times> log)" where
  "scanLoop env [] sl = Inr sl"
| "scanLoop env (i # is) sl =
     (case scanPosition env i sl of
        Inl thrown \<Rightarrow> Inl thrown
      | Inr sl' \<Rightarrow> scanLoop env is sl')"

definition initialScanState :: "environment \<Rightarrow> scan_state" where
  "initialScanState env = \<lparr>baselineData = baselineShot env, capturedImages = []\<rparr>"

text \<open>The record written to \<^verbatim>\<open>metadata.json\<close>, without the fields that read the clock and
  the output path.\<close>

record metadata =
  coordinates :: string
  locationName :: string
  capturedCount :: nat
  targetYearRange :: string
  actualYearRange :: string

definition buildMetadata :: "environment \<Rightarrow> captured_image list \<Rightarrow> metadata" where
  "buildMetadata env images =
     \<lparr>coordinates = COORDINATES,
      locationName = LOCATION_NAME,
      capturedCount = length images,
      targetYearRange = show_int START_YEAR @ '' to '' @ show_int (CURRENT_YEAR env),
      actualYearRange =
        (if length images > 0
         then formattedDate (images ! 0) @ '' to '' @ formattedDate (images ! (length images - 1))
         else ''No images captured'')\<rparr>"

text \<open>The cards of the gallery in \<^verbatim>\<open>enhanced_report.html\<close>, one for each captured image,
  with its index in the list.\<close>

record card =
  cardIndex :: nat
  cardImage :: string
  cardDate :: string
  cardPosition :: nat
  cardPointX :: int
  cardEstimatedYear :: int
  cardDetectedDate :: string
  cardDateDisplay :: string

definition gallery :: "captured_image list \<Rightarrow> card list" where
  "gallery images =
     map (\<lambda>(index, img).
            \<lparr>cardIndex = index, cardImage = uniquePath img, cardDate = formattedDate img,
             cardPosition = position img, cardPointX = pointX img,
             cardEstimatedYear = estimatedYear img,
             cardDetectedDate =
               (if truthy (detectedDateText img) then the (detectedDateText img) else ''Unknown''),
             cardDateDisplay = dateDisplayPath img\<rparr>)
         (zip [0..<length images] images)"

datatype completion = Fulfilled | Rejected string

record outcome =
  finalLog :: log
  metadataFile :: "metadata option"
  reportFile :: "card list option"
  completion :: completion

text \<open>
  Step 2 of \<^verbatim>\<open>captureHistoricalImagery()\<close> in the enhanced script, the click on the history
  icon: a missing visual confirmation is logged as a warning and the run goes on.
\<close>

definition clickHistoryIcon :: "environment \<Rightarrow> log \<Rightarrow> log" where
  "clickHistoryIcon env lg0 =
     (let lg1 = log (Line ''Clicking on history icon...'') lg0;
          (comparison, lg2) = compareScreenshots (beforeClickData env) (afterClickData env) lg1
      in if hasSignificantChange comparison
         then log (Line ''Historical mode activated successfully.'') lg2
         else log (Line ''Warning: No visual confirmation of historical mode. Continuing anyway.'') lg2)"

text \<open>
  \<^verbatim>\<open>captureHistoricalImagery()\<close> of the enhanced script, from step 2 on. The \<^verbatim>\<open>catch\<close> block
  logs the message and takes a screenshot; \<^verbatim>\<open>finally\<close> closes the browser. The promise is
  rejected only when the \<^verbatim>\<open>catch\<close> block itself raises.
\<close>

definition captureHistoricalImagery :: "environment \<Rightarrow> log \<Rightarrow> outcome" where
  "captureHistoricalImagery env lg0 =
     (let lg3 = clickHistoryIcon env lg0;
          lg4 = log (Line ''Starting timeline exploration...'') lg3
      in case scanLoop env [0..<numPoints] (initialScanState env, lg4) of
           Inr (st, lg5) \<Rightarrow>
             (let images = capturedImages st;
                  lg6 = log (Line (''Found '' @ show_nat (length images)
                               @ '' unique historical images.'')) lg5;
                  lg7 = log (Line ''Capture complete. Enhanced report generated.'') lg6
              in \<lparr>finalLog = log (Line ''Browser closed'') lg7,
                  metadataFile = Some (buildMetadata env images),
                  reportFile = Some (gallery images),
                  completion = Fulfilled\<rparr>)
         | Inl (message, lg5) \<Rightarrow>
             (let lg6 = log (Line (''Error: '' @ message)) lg5
              in \<lparr>finalLog = log (Line ''Browser closed'') lg6,
                  metadataFile = None,
                  reportFile = None,
                  completion = (case errorScreenshot env of
                                  None \<Rightarrow> Fulfilled
                                | Some message' \<Rightarrow> Rejected message')\<rparr>))"

section \<open>The refined script: activation of the historical mode\<close>

definition MAX_RETRIES :: nat where
  "MAX_RETRIES = 3"

text \<open>
  The environment of the refined script: \<open>buttonVisible k\<close> is what \<^verbatim>\<open>page.evaluate\<close>
  returns in the attempt made with \<^verbatim>\<open>retryCount = k\<close>, \<open>extractedDate i\<close> is what this
  script's \<^verbatim>\<open>extractDateFromImage\<close> returns for the date display at index \<open>i\<close> (a string,
  or \<^verbatim>\<open>null\<close>), and \<open>errorShot\<close> is the screenshot taken in the \<^verbatim>\<open>catch\<close> block. The other
  browser calls are taken to succeed.
\<close>

record environment_refined =
  buttonVisible :: "nat \<Rightarrow> bool"
  extractedDate :: "nat \<Rightarrow> string option"
  errorShot :: "string option"

text \<open>\<^verbatim>\<open>while (!historyModeActivated && retryCount < MAX_RETRIES)\<close>\<close>

function activationLoop ::
    "environment_refined \<Rightarrow> bool \<Rightarrow> nat \<Rightarrow> log \<Rightarrow> bool \<times> nat \<times> log" where
  "activationLoop env historyModeActivated retryCount lg =
     (if \<not> historyModeActivated \<and> retryCount < MAX_RETRIES
      then
        (let lg1 = log (Line (''Attempt '' @ show_nat (retryCount + 1)
                         @ '': Clicking on history icon at (520, 37)...'')) lg;
             lg2 = log (Line ''Clicked history icon'') lg1
         in if buttonVisible env retryCount
            then activationLoop env True retryCount
                   (log (Line ''Historical imagery mode activated! (Found \"Deactivate\" button)'') lg2)
            else activationLoop env False (retryCount + 1)
                   (log (Line ''No \"Deactivate\" button found. Retrying...'') lg2))
      else (historyModeActivated, retryCount, lg))"
  by pat_completeness auto
termination
  by (relation "measure (\<lambda>(env, activated, retryCount, lg).
                  if activated then 0 else 1 + (MAX_RETRIES - retryCount))") auto

declare activationLoop.simps [simp del]

text \<open>\<^verbatim>\<open>capturedDates.set(key, value)\<close> on a \<^verbatim>\<open>Map\<close>, kept as the list of its entries in
  insertion order.\<close>

fun map_set :: "'k \<Rightarrow> 'v \<Rightarrow> ('k \<times> 'v) list \<Rightarrow> ('k \<times> 'v) list" where
  "map_set k v [] = [(k, v)]"
| "map_set k v (e # es) = (if fst e = k then (k, v) # es else e # map_set k v es)"

record captured_date =
  datePosition :: nat
  dateX :: int
  imagePath :: string

text \<open>One click on the timeline, for the index \<open>i\<close>.\<close>

definition clickDot ::
    "environment_refined \<Rightarrow> nat \<Rightarrow> (string \<times> captured_date) list \<times> log \<Rightarrow>
       (string \<times> captured_date) list \<times> log" where
  "clickDot env i dl =
     (let dotX = Math_round (400 + real i * ((1600 - 400) / 30));
          lg1 = log (Line (''Clicking timeline position '' @ show_nat (i + 1) @ ''/30 at (''
                       @ show_int dotX @ '', 95)'')) (snd dl);
          found = extractedDate env i;
          lg2 = log (Line (''Position '' @ show_nat (i + 1) @ '': Detected date: ''
                       @ (if truthy found then the found else ''None detected''))) lg1
      in if truthy found
         then (map_set (the found)
                 \<lparr>datePosition = i + 1, dateX = dotX,
                  imagePath = ''imagery_position_'' @ show_nat (i + 1) @ ''_''
                    @ map (\<lambda>c. if c = CHR ''/'' then CHR ''-'' else c) (the found) @ ''.png''\<rparr>
                 (fst dl), lg2)
         else (fst dl, lg2))"

definition clickDots ::
    "environment_refined \<Rightarrow> nat list \<Rightarrow> (string \<times> captured_date) list \<times> log \<Rightarrow>
       (string \<times> captured_date) list \<times> log" where
  "clickDots env indices dl = foldl (\<lambda>dl' i. clickDot env i dl') dl indices"

record outcome_refined =
  refinedLog :: log
  capturedDatesFile :: "(string \<times> captured_date) list option"
  refinedCompletion :: completion

text \<open>
  \<^verbatim>\<open>captureHistoricalImagery()\<close> of the refined script, from the activation of the historical
  mode. The \<^verbatim>\<open>catch\<close> block logs the message and guards its own screenshot with a
  \<^verbatim>\<open>try\<close>; it does not raise again.
\<close>

definition captureHistoricalImagery_refined :: "environment_refined \<Rightarrow> log \<Rightarrow> outcome_refined" where
  "captureHistoricalImagery_refined env lg0 =
     (let (historyModeActivated, retryCount, lg1) = activationLoop env False 0 lg0;
          body =
            (if \<not> historyModeActivated
             then Inl (''Failed to activate historical imagery mode after multiple attempts'', lg1)
             else
               (let lg2 = log (Line ''Checking for and pausing any auto-playback...'') lg1;
                    lg3 = log (Line ''Starting optimized blue dot strategy - clicking across timeline to find all available dates'') lg2;
                    (capturedDates, lg4) = clickDots env [0..<30] ([], lg3);
                    lg5 = log (Line ''Historical imagery capture complete.'') lg4;
                    lg6 = log (Line (''Successfully captured '' @ show_nat (length capturedDates)
                                 @ '' unique dates'')) lg5;
                    lg7 = log (Line ''Check the output directory for captured screenshots and the captured_dates.json summary.'') lg6
                in Inr (capturedDates, lg7)))
      in case body of
           Inr (capturedDates, lg) \<Rightarrow>
             \<lparr>refinedLog = log (Line ''Browser closed'') lg,
              capturedDatesFile = Some capturedDates,
              refinedCompletion = Fulfilled\<rparr>
         | Inl (message, lg) \<Rightarrow>
             (let lg' = log (Line (''ERROR: '' @ message)) lg;
                  lg'' = (case errorShot env of
                            None \<Rightarrow> lg'
                          | Some message' \<Rightarrow>
                              log (Line (''Failed to take error screenshot: '' @ message')) lg')
              in \<lparr>refinedLog = log (Line ''Browser closed'') lg'',
                  capturedDatesFile = None,
                  refinedCompletion = Fulfilled\<rparr>))"

section \<open>Notions used in the statements\<close>


text \<open>The record returned by \<^verbatim>\<open>compareScreenshots\<close> and the one returned by
  \<^verbatim>\<open>extractDateFromImage\<close>; neither depends on the log.\<close>

definition comparisonOf :: "buffer \<Rightarrow> buffer \<Rightarrow> comparison" where
  "comparisonOf before after = fst (compareScreenshots before after [])"

definition significant :: "buffer \<Rightarrow> buffer \<Rightarrow> bool" where
  "significant before after = hasSignificantChange (comparisonOf before after)"

definition ocrResultOf :: "string + string \<Rightarrow> ocr_result" where
  "ocrResultOf ocr = fst (extractDateFromImage ocr [])"

text \<open>The sample recorded for index \<open>i\<close> when its frame is flagged unique against
  \<open>baseline\<close>, and the scan state after a probe that succeeded.\<close>

definition sampleAt :: "nat \<Rightarrow> buffer \<Rightarrow> string + string \<Rightarrow> buffer \<Rightarrow> captured_image" where
  "sampleAt i frame ocr baseline =
     (let x = Math_round (timelineStart + real i * intervalWidth);
          year = estimateYearFromPosition (real_of_int x);
          label = formattedDateOf (ocrResultOf ocr) year
      in \<lparr>position = i + 1, pointX = x, estimatedYear = year,
          detectedDateText = raw (ocrResultOf ocr), formattedDate = label,
          uniquePath = uniqueImageName label,
          dateDisplayPath = ''date_display_'' @ show_nat (i + 1) @ ''.png'',
          imagePercentDiff = percentDiff (comparisonOf baseline frame)\<rparr>)"

definition stateAfter :: "environment \<Rightarrow> scan_state \<Rightarrow> nat \<Rightarrow> scan_state" where
  "stateAfter env st i =
     (case probe env i of
        ProbeThrows message \<Rightarrow> st
      | Probed frame ocr \<Rightarrow>
          if significant (baselineData st) frame
          then \<lparr>baselineData = frame,
                capturedImages = capturedImages st @ [sampleAt i frame ocr (baselineData st)]\<rparr>
          else st)"

text \<open>
  A scan without OCR dates whose frames change at the indices 0, 4, 14 and 27, which the
  positional estimate places in 2015, 2016, 2019 and 2023.
\<close>

definition scenario :: environment where
  "scenario =
     \<lparr>beforeClickData = replicate 1000 0, afterClickData = replicate 1100 0,
      baselineShot = replicate 1000 0,
      probe = (\<lambda>i. Probed (replicate (if i < 4 then 2000 else if i < 14 then 3000
                                        else if i < 27 then 4000 else 5000) 0) (Inr [])),
      errorScreenshot = None, CURRENT_YEAR = 2025\<rparr>"

text \<open>The same scan with a timeout in the third probe.\<close>

definition scenarioTimeout :: environment where
  "scenarioTimeout =
     scenario\<lparr>probe := (\<lambda>i. if i = 2 then ProbeThrows ''Navigation timeout of 60000 ms exceeded''
                              else probe scenario i)\<rparr>"

text \<open>A run of the refined script in which the button never shows.\<close>

definition neverActivated :: environment_refined where
  "neverActivated =
     \<lparr>buttonVisible = (\<lambda>k. False), extractedDate = (\<lambda>i. Some ''3/20/2016''),
      errorShot = None\<rparr>"

section \<open>Properties of the change detector\<close>

lemma compareScreenshots_decision:
  "hasSignificantChange (fst (compareScreenshots before after lg)) =
     js_gt (js_mul (js_div \<bar>real (length before) - real (length after)\<bar> (real (length before))) 100) 0.5"
  by (simp add: compareScreenshots_def Let_def)

lemma compareScreenshots_log:
  "snd (compareScreenshots before after lg) =
     lg @ [ImageSizeDifference (percentDiff (fst (compareScreenshots before after lg)))]"
  by (simp add: compareScreenshots_def Let_def log_def)

lemma compareScreenshots_nonempty:
  "before \<noteq> [] \<Longrightarrow>
   hasSignificantChange (fst (compareScreenshots before after lg)) =
     (0.5 < \<bar>real (length before) - real (length after)\<bar> / real (length before) * 100)"
  by (simp add: compareScreenshots_def Let_def js_div_def)

lemma hasSignificantChanges_nonempty:
  "before \<noteq> [] \<Longrightarrow>
   fst (hasSignificantChanges before after lg) =
     (1 < \<bar>real (length before) - real (length after)\<bar> / real (length before) * 100)"
  by (simp add: hasSignificantChanges_def Let_def js_div_def)

lemma compareScreenshots_percentDiff_nonempty:
  "before \<noteq> [] \<Longrightarrow>
   percentDiff (fst (compareScreenshots before after lg)) =
     Num (\<bar>real (length before) - real (length after)\<bar> / real (length before) * 100)"
  by (simp add: compareScreenshots_def Let_def js_div_def)

lemma hasSignificantChanges_log:
  "before \<noteq> [] \<Longrightarrow>
   snd (hasSignificantChanges before after lg) =
     lg @ [ImageSizeDifference
             (Num (\<bar>real (length before) - real (length after)\<bar> / real (length before) * 100))]"
  by (simp add: hasSignificantChanges_def Let_def js_div_def log_def)

lemma relative_difference_antimono:
  fixes m n :: nat and t :: real
  assumes "0 < m" "m \<le> n" "t < \<bar>real n - real m\<bar> / real n * 100"
  shows "t < \<bar>real m - real n\<bar> / real m * 100"
proof -
  have d: "\<bar>real m - real n\<bar> = \<bar>real n - real m\<bar>"
    by (rule abs_minus_commute)
  have "\<bar>real n - real m\<bar> / real n \<le> \<bar>real n - real m\<bar> / real m"
    using assms(1,2) by (intro divide_left_mono) simp_all
  then have "\<bar>real n - real m\<bar> / real n * 100 \<le> \<bar>real n - real m\<bar> / real m * 100"
    by (rule mult_right_mono) simp
  then have "\<bar>real n - real m\<bar> / real n * 100 \<le> \<bar>real m - real n\<bar> / real m * 100"
    by (simp only: d)
  with assms(3) show ?thesis by linarith
qed

text \<open>
  C1 (as amended). The detector is not free of effects: each call appends one
  \<^verbatim>\<open>Image size difference\<close> line to the session log. For a non-empty baseline the decision
  it returns depends on the two buffer lengths only, and it is true exactly when
  \<open>|len(baseline) - len(candidate)| / len(baseline) * 100\<close> is strictly greater than the
  threshold: 0.5 percent in \<^verbatim>\<open>compareScreenshots\<close>, 1 percent in \<^verbatim>\<open>hasSignificantChanges\<close>.
\<close>

theorem change_detector_decision:
  assumes "before \<noteq> []"
  shows "hasSignificantChange (fst (compareScreenshots before after lg)) =
           (0.5 < \<bar>real (length before) - real (length after)\<bar> / real (length before) * 100)
       \<and> fst (hasSignificantChanges before after lg) =
           (1 < \<bar>real (length before) - real (length after)\<bar> / real (length before) * 100)
       \<and> snd (compareScreenshots before after lg) =
           lg @ [ImageSizeDifference
                   (Num (\<bar>real (length before) - real (length after)\<bar> / real (length before) * 100))]
       \<and> snd (hasSignificantChanges before after lg) =
           lg @ [ImageSizeDifference
                   (Num (\<bar>real (length before) - real (length after)\<bar> / real (length before) * 100))]"
  using assms compareScreenshots_nonempty [of before after lg]
    hasSignificantChanges_nonempty [of before after lg]
    compareScreenshots_log [of before after lg]
    compareScreenshots_percentDiff_nonempty [of before after lg]
    hasSignificantChanges_log [of before after lg]
  by simp

theorem change_detector_decision_witness:
  "hasSignificantChange (fst (compareScreenshots [1, 2] [1, 2, 3] []))
   \<and> fst (hasSignificantChanges [1, 2] [1, 2, 3] [])
   \<and> snd (compareScreenshots [1, 2] [1, 2, 3] []) = [ImageSizeDifference (Num 50)]
   \<and> snd (hasSignificantChanges [1, 2] [1, 2, 3] []) = [ImageSizeDifference (Num 50)]"
  using change_detector_decision [of "[1, 2]" "[1, 2, 3]" "[]"] by simp

text \<open>
  C1 (as stated) fails: the call has an effect. On an empty log, comparing a one-byte
  buffer with itself leaves a log of one line.
\<close>

theorem change_detector_pure_counterexample:
  "snd (compareScreenshots [0] [0] []) = [ImageSizeDifference (Num 0)]
   \<and> snd (compareScreenshots [0] [0] []) \<noteq> []
   \<and> snd (hasSignificantChanges [0] [0] []) \<noteq> []"
  by (simp add: compareScreenshots_def hasSignificantChanges_def Let_def js_div_def log_def)

text \<open>
  C6 (as amended). The difference is measured relative to the first buffer, the baseline,
  so the decision is monotone rather than symmetric: for non-empty buffers \<open>a\<close> and \<open>b\<close>
  with \<open>len(a) \<le> len(b)\<close>, a change reported with the longer buffer \<open>b\<close> as baseline is
  also reported with the shorter buffer \<open>a\<close> as baseline; for buffers of equal length
  neither order reports a change.
\<close>

theorem change_detector_order:
  assumes "a \<noteq> []" and "length a \<le> length b"
  shows "(hasSignificantChange (fst (compareScreenshots b a lg)) \<longrightarrow>
            hasSignificantChange (fst (compareScreenshots a b lg')))
       \<and> (fst (hasSignificantChanges b a lg) \<longrightarrow> fst (hasSignificantChanges a b lg'))
       \<and> (length a = length b \<longrightarrow>
            \<not> hasSignificantChange (fst (compareScreenshots a b lg))
          \<and> \<not> hasSignificantChange (fst (compareScreenshots b a lg')))"
proof -
  from assms have a: "0 < length a" and b: "b \<noteq> []" by auto
  have 1: "hasSignificantChange (fst (compareScreenshots b a lg)) \<longrightarrow>
           hasSignificantChange (fst (compareScreenshots a b lg'))"
    using relative_difference_antimono [OF a assms(2), of "0.5"]
    unfolding compareScreenshots_nonempty [OF assms(1)] compareScreenshots_nonempty [OF b]
    by blast
  have 2: "fst (hasSignificantChanges b a lg) \<longrightarrow> fst (hasSignificantChanges a b lg')"
    using relative_difference_antimono [OF a assms(2), of 1]
    unfolding hasSignificantChanges_nonempty [OF assms(1)] hasSignificantChanges_nonempty [OF b]
    by blast
  have 3: "length a = length b \<longrightarrow>
            \<not> hasSignificantChange (fst (compareScreenshots a b lg))
          \<and> \<not> hasSignificantChange (fst (compareScreenshots b a lg'))"
    using assms(1) b by (simp add: compareScreenshots_nonempty)
  from 1 2 3 show ?thesis by blast
qed

theorem change_detector_order_witness:
  "hasSignificantChange (fst (compareScreenshots (replicate 100 0) (replicate 50 0) [])) \<and>
   hasSignificantChange (fst (compareScreenshots (replicate 50 0) (replicate 100 0) []))"
proof -
  have "hasSignificantChange (fst (compareScreenshots (replicate 100 0) (replicate 50 0) []))"
    by (simp add: compareScreenshots_nonempty)
  moreover have "replicate 50 (0 :: 8 word) \<noteq> []"
    and "length (replicate 50 (0 :: 8 word)) \<le> length (replicate 100 (0 :: 8 word))"
    by simp_all
  ultimately show ?thesis
    using change_detector_order [of "replicate 50 0" "replicate 100 0" "[]" "[]"] by blast
qed

text \<open>
  C6 (as stated) fails at the 0.5 percent threshold for buffers of 199 and 200 bytes:
  \<open>1 / 199 * 100 > 0.5\<close>, but \<open>1 / 200 * 100 = 0.5\<close>.
\<close>

theorem change_detector_symmetry_counterexample:
  "hasSignificantChange (fst (compareScreenshots (replicate 199 0) (replicate 200 0) []))
   \<and> \<not> hasSignificantChange (fst (compareScreenshots (replicate 200 0) (replicate 199 0) []))"
  by (simp add: compareScreenshots_nonempty)

text \<open>
  C10. With an empty baseline the division is by zero and nothing is raised: the functions
  are total and have no error result. Against an empty candidate the percentage is \<^verbatim>\<open>NaN\<close>
  and no change is reported; against any non-empty candidate it is \<^verbatim>\<open>Infinity\<close> and a change
  is reported.
\<close>

theorem change_detector_empty_baseline:
  "percentDiff (fst (compareScreenshots [] [] lg)) = NaN
   \<and> \<not> hasSignificantChange (fst (compareScreenshots [] [] lg))
   \<and> percentDiff (fst (compareScreenshots [] (x # xs) lg)) = PosInf
   \<and> hasSignificantChange (fst (compareScreenshots [] (x # xs) lg))
   \<and> hasSignificantChange (fst (compareScreenshots [] after lg)) = (after \<noteq> [])
   \<and> fst (hasSignificantChanges [] after lg) = (after \<noteq> [])"
  by (simp add: compareScreenshots_def hasSignificantChanges_def Let_def js_div_def)

section \<open>Properties of the positional year estimate\<close>

lemma estimateYearFromPosition_unfold:
  "estimateYearFromPosition x =
     2002 + Math_round ((x - 400) / ((1600 - 400) / real_of_int (2024 - 2002)))"
  by (simp only: estimateYearFromPosition_def Let_def)

lemma estimateYearFromPosition_eq:
  "estimateYearFromPosition x = 2002 + \<lfloor>(x - 400) * 11 / 600 + 1 / 2\<rfloor>"
proof -
  have "(x - 400) / ((1600 - 400) / real_of_int (2024 - 2002)) = (x - 400) * 11 / 600"
    by simp
  then show ?thesis
    by (simp only: estimateYearFromPosition_unfold Math_round_def) simp
qed

lemma estimateYearFromPosition_mono:
  "x \<le> y \<Longrightarrow> estimateYearFromPosition x \<le> estimateYearFromPosition y"
  unfolding estimateYearFromPosition_eq
  by (intro add_left_mono floor_mono add_right_mono divide_right_mono mult_right_mono) simp_all

text \<open>
  C2. For every finite \<open>pixelX\<close> the estimate is
  \<open>2002 + round((pixelX - 400) / ((1600 - 400) / (2024 - 2002)))\<close>; it is 2002 at 400 and
  2024 at 1600, and it is monotonic non-decreasing.
\<close>

theorem estimateYearFromPosition_calibrated:
  "estimateYearFromPosition x =
     2002 + Math_round ((x - 400) / ((1600 - 400) / (2024 - 2002)))
   \<and> estimateYearFromPosition 400 = 2002
   \<and> estimateYearFromPosition 1600 = 2024
   \<and> (\<forall>u v. u \<le> v \<longrightarrow> estimateYearFromPosition u \<le> estimateYearFromPosition v)"
proof -
  have "real_of_int (2024 - 2002) = 2024 - 2002"
    by simp
  then have "estimateYearFromPosition x =
          2002 + Math_round ((x - 400) / ((1600 - 400) / (2024 - 2002)))"
    by (simp only: estimateYearFromPosition_unfold)
  moreover have "estimateYearFromPosition 400 = 2002"
    by (simp add: estimateYearFromPosition_eq)
  moreover have "estimateYearFromPosition 1600 = 2024"
    by (simp add: estimateYearFromPosition_eq)
  ultimately show ?thesis
    using estimateYearFromPosition_mono by blast
qed

theorem estimateYearFromPosition_calibrated_witness:
  "(700 :: real) \<le> 1300 \<and> estimateYearFromPosition 700 = 2008
   \<and> estimateYearFromPosition 1300 = 2019
   \<and> estimateYearFromPosition 700 \<le> estimateYearFromPosition 1300"
proof -
  have le: "(700 :: real) \<le> 1300" by simp
  have "estimateYearFromPosition 700 \<le> estimateYearFromPosition 1300"
    using estimateYearFromPosition_calibrated [of 0] le by blast
  moreover have "estimateYearFromPosition 700 = 2008" "estimateYearFromPosition 1300 = 2019"
    by (simp_all add: estimateYearFromPosition_eq)
  ultimately show ?thesis using le by blast
qed

section \<open>Properties of the timeline scan\<close>

lemma fst_compareScreenshots:
  "fst (compareScreenshots before after lg) = comparisonOf before after"
  by (simp add: comparisonOf_def compareScreenshots_def Let_def)

lemma fst_extractDateFromImage:
  "fst (extractDateFromImage ocr lg) = ocrResultOf ocr"
  by (cases ocr) (simp_all add: ocrResultOf_def extractDateFromImage_def Let_def)

lemma scanPosition_Probed:
  assumes "probe env i = Probed frame ocr"
  shows "\<exists>lg'. scanPosition env i (st, lg) = Inr (stateAfter env st i, lg')"
  using assms
  by (simp add: scanPosition_def Let_def split_beta stateAfter_def significant_def sampleAt_def
        fst_compareScreenshots fst_extractDateFromImage)

lemma scanPosition_Throws:
  assumes "probe env i = ProbeThrows message"
  shows "\<exists>lg'. scanPosition env i (st, lg) = Inl (message, lg')"
  using assms by (simp add: scanPosition_def Let_def)

lemma scanPosition_cong:
  "probe env i = probe env' i \<Longrightarrow> scanPosition env i sl = scanPosition env' i sl"
  by (simp add: scanPosition_def)

lemma scanLoop_cong:
  "\<forall>i \<in> set is. probe env i = probe env' i \<Longrightarrow> scanLoop env is sl = scanLoop env' is sl"
proof (induction "is" arbitrary: sl)
  case Nil
  show ?case by simp
next
  case (Cons i "is")
  have 1: "scanPosition env i sl = scanPosition env' i sl"
    using Cons.prems by (intro scanPosition_cong) simp
  have 2: "scanLoop env is sl' = scanLoop env' is sl'" for sl'
    using Cons.prems by (intro Cons.IH) simp
  show ?case
    by (cases "scanPosition env' i sl") (simp_all add: 1 2)
qed

lemma scanLoop_append:
  "scanLoop env (xs @ ys) sl =
     (case scanLoop env xs sl of Inl thrown \<Rightarrow> Inl thrown | Inr sl' \<Rightarrow> scanLoop env ys sl')"
proof (induction xs arbitrary: sl)
  case Nil
  show ?case by simp
next
  case (Cons i xs)
  show ?case
    by (cases "scanPosition env i sl") (simp_all add: Cons.IH)
qed

lemma scanLoop_Probed:
  assumes "\<forall>i \<in> set is. \<exists>frame ocr. probe env i = Probed frame ocr"
  shows "\<exists>lg'. scanLoop env is (st, lg) = Inr (foldl (stateAfter env) st is, lg')"
  using assms
proof (induction "is" arbitrary: st lg)
  case Nil
  show ?case by simp
next
  case (Cons i "is")
  then obtain frame ocr where p: "probe env i = Probed frame ocr"
    by auto
  obtain lg1 where 1: "scanPosition env i (st, lg) = Inr (stateAfter env st i, lg1)"
    using scanPosition_Probed [OF p] by blast
  have "\<forall>i \<in> set is. \<exists>frame ocr. probe env i = Probed frame ocr"
    using Cons.prems by simp
  from Cons.IH [OF this, of "stateAfter env st i" lg1]
  obtain lg2 where "scanLoop env is (stateAfter env st i, lg1) =
      Inr (foldl (stateAfter env) (stateAfter env st i) is, lg2)"
    by blast
  with 1 show ?case by simp
qed


lemma scanLoop_Throws:
  assumes "\<forall>j \<in> set pre. \<exists>frame ocr. probe env j = Probed frame ocr"
    and "probe env i = ProbeThrows message"
  shows "\<exists>lg'. scanLoop env (pre @ i # post) (st, lg) = Inl (message, lg')"
proof -
  obtain lg1 where 1: "scanLoop env pre (st, lg) = Inr (foldl (stateAfter env) st pre, lg1)"
    using scanLoop_Probed [OF assms(1)] by blast
  obtain lg2 where "scanPosition env i (foldl (stateAfter env) st pre, lg1) = Inl (message, lg2)"
    using scanPosition_Throws [OF assms(2)] by blast
  with 1 show ?thesis
    by (simp add: scanLoop_append)
qed

lemma indices: "[0..<numPoints] =
  [0, 1, 2, 3, 4, 5, 6, 7, 8, 9, 10, 11, 12, 13, 14, 15, 16, 17, 18, 19, 20, 21, 22, 23, 24,
   25, 26, 27, 28, 29]"
  by code_simp














lemma upt_split:
  assumes "i < n"
  shows "[0..<n] = [0..<i] @ i # [Suc i..<n]"
proof -
  have "[0..<i + (n - i)] = [0..<i] @ [i..<i + (n - i)]"
    by (rule upt_add_eq_append) simp
  then have "[0..<n] = [0..<i] @ [i..<n]"
    using assms by simp
  then show ?thesis
    using assms by (simp add: upt_conv_Cons)
qed

lemma capture_aborts:
  assumes "i < numPoints" and "probe env i = ProbeThrows message"
    and "\<forall>j<i. \<exists>frame ocr. probe env j = Probed frame ocr"
  shows "\<exists>lg'. captureHistoricalImagery env lg =
           \<lparr>finalLog = lg' @ [Line (''Error: '' @ message), Line ''Browser closed''],
            metadataFile = None, reportFile = None,
            completion = (case errorScreenshot env of None \<Rightarrow> Fulfilled
                          | Some message' \<Rightarrow> Rejected message')\<rparr>"
proof -
  have pre: "\<forall>j \<in> set [0..<i]. \<exists>frame ocr. probe env j = Probed frame ocr"
    using assms(3) by simp
  define lg4 where "lg4 = log (Line ''Starting timeline exploration...'') (clickHistoryIcon env lg)"
  obtain lg5 where "scanLoop env ([0..<i] @ i # [Suc i..<numPoints]) (initialScanState env, lg4) =
      Inl (message, lg5)"
    using scanLoop_Throws [OF pre assms(2)] by blast
  then have "scanLoop env [0..<numPoints] (initialScanState env, lg4) = Inl (message, lg5)"
    by (simp only: upt_split [OF assms(1), symmetric])
  then have "captureHistoricalImagery env lg =
           \<lparr>finalLog = log (Line ''Browser closed'') (log (Line (''Error: '' @ message)) lg5),
            metadataFile = None, reportFile = None,
            completion = (case errorScreenshot env of None \<Rightarrow> Fulfilled
                          | Some message' \<Rightarrow> Rejected message')\<rparr>"
    by (simp add: captureHistoricalImagery_def Let_def lg4_def [symmetric])
  then show ?thesis
    by (simp add: log_def)
qed

lemma capture_ignores_later_probes:
  assumes "i < numPoints" and "probe env i = ProbeThrows message"
    and "\<forall>j<i. \<exists>frame ocr. probe env j = Probed frame ocr"
    and "\<forall>j\<le>i. probe env' j = probe env j"
    and "beforeClickData env' = beforeClickData env" and "afterClickData env' = afterClickData env"
    and "baselineShot env' = baselineShot env" and "errorScreenshot env' = errorScreenshot env"
  shows "captureHistoricalImagery env' lg = captureHistoricalImagery env lg"
proof -
  define lg4 where "lg4 = log (Line ''Starting timeline exploration...'') (clickHistoryIcon env lg)"
  have c: "clickHistoryIcon env' lg = clickHistoryIcon env lg"
    using assms(5,6) by (simp add: clickHistoryIcon_def)
  have s: "initialScanState env' = initialScanState env"
    using assms(7) by (simp add: initialScanState_def)
  have pre: "\<forall>j \<in> set [0..<i]. \<exists>frame ocr. probe env j = Probed frame ocr"
    using assms(3) by simp
  have pre': "\<forall>j \<in> set [0..<i]. \<exists>frame ocr. probe env' j = Probed frame ocr"
    using assms(3,4) by simp
  have i': "probe env' i = ProbeThrows message"
    using assms(2,4) by simp
  obtain lg1 where 1: "scanLoop env [0..<i] (initialScanState env, lg4) =
      Inr (foldl (stateAfter env) (initialScanState env) [0..<i], lg1)"
    using scanLoop_Probed [OF pre] by blast
  have "scanLoop env' [0..<i] (initialScanState env, lg4) = scanLoop env [0..<i] (initialScanState env, lg4)"
    using assms(4) by (intro scanLoop_cong) simp
  with 1 have l1: "scanLoop env' [0..<i] (initialScanState env, lg4) =
      Inr (foldl (stateAfter env) (initialScanState env) [0..<i], lg1)"
    by simp
  obtain lg2 where 2: "scanPosition env i (foldl (stateAfter env) (initialScanState env) [0..<i], lg1) =
      Inl (message, lg2)"
    using scanPosition_Throws [OF assms(2)] by blast
  have "scanPosition env' i (foldl (stateAfter env) (initialScanState env) [0..<i], lg1) =
      scanPosition env i (foldl (stateAfter env) (initialScanState env) [0..<i], lg1)"
    using assms(4) by (intro scanPosition_cong) simp
  with 2 have l2: "scanPosition env' i (foldl (stateAfter env) (initialScanState env) [0..<i], lg1) =
      Inl (message, lg2)"
    by simp
  have sp: "[0..<numPoints] = [0..<i] @ i # [Suc i..<numPoints]"
    by (rule upt_split [OF assms(1)])
  have "scanLoop env ([0..<i] @ i # [Suc i..<numPoints]) (initialScanState env, lg4) =
      Inl (message, lg2)"
    using 1 2 by (simp add: scanLoop_append)
  then have r: "scanLoop env [0..<numPoints] (initialScanState env, lg4) = Inl (message, lg2)"
    by (simp only: sp [symmetric])
  have "scanLoop env' ([0..<i] @ i # [Suc i..<numPoints]) (initialScanState env, lg4) =
      Inl (message, lg2)"
    using l1 l2 by (simp add: scanLoop_append)
  then have r': "scanLoop env' [0..<numPoints] (initialScanState env, lg4) = Inl (message, lg2)"
    by (simp only: sp [symmetric])
  show ?thesis
    using assms(8) by (simp add: captureHistoricalImagery_def Let_def c s lg4_def [symmetric] r r')
qed

text \<open>
  C7 (as amended). The scan loop has no handler of its own: when the probe at index \<open>i\<close> is
  the first to raise, the exception leaves the loop and is caught by the handler of the whole
  run, which logs \<^verbatim>\<open>Error:\<close> with the message; the browser is closed, and neither
  \<^verbatim>\<open>metadata.json\<close> nor the report is written, so no sample of the run is reported. The
  positions after \<open>i\<close> are not probed: the run is the same whatever the later probes
  would have returned.
\<close>

theorem probe_failure_aborts_scan:
  assumes "i < numPoints" and "probe env i = ProbeThrows message"
    and "\<forall>j<i. \<exists>frame ocr. probe env j = Probed frame ocr"
  shows "metadataFile (captureHistoricalImagery env lg) = None
       \<and> reportFile (captureHistoricalImagery env lg) = None
       \<and> (\<exists>lg'. finalLog (captureHistoricalImagery env lg) =
                   lg' @ [Line (''Error: '' @ message), Line ''Browser closed''])
       \<and> (\<forall>env'. (\<forall>j\<le>i. probe env' j = probe env j)
                 \<and> beforeClickData env' = beforeClickData env
                 \<and> afterClickData env' = afterClickData env
                 \<and> baselineShot env' = baselineShot env
                 \<and> errorScreenshot env' = errorScreenshot env
              \<longrightarrow> captureHistoricalImagery env' lg = captureHistoricalImagery env lg)"
proof -
  obtain lg' where "captureHistoricalImagery env lg =
           \<lparr>finalLog = lg' @ [Line (''Error: '' @ message), Line ''Browser closed''],
            metadataFile = None, reportFile = None,
            completion = (case errorScreenshot env of None \<Rightarrow> Fulfilled
                          | Some message' \<Rightarrow> Rejected message')\<rparr>"
    using capture_aborts [OF assms] by blast
  then have "metadataFile (captureHistoricalImagery env lg) = None"
    and "reportFile (captureHistoricalImagery env lg) = None"
    and "\<exists>lg'. finalLog (captureHistoricalImagery env lg) =
                   lg' @ [Line (''Error: '' @ message), Line ''Browser closed'']"
    by simp_all
  then show ?thesis
    using capture_ignores_later_probes [OF assms] by blast
qed

lemma scenarioTimeout_probes:
  "probe scenarioTimeout 2 = ProbeThrows ''Navigation timeout of 60000 ms exceeded''"
  "\<forall>j<2. \<exists>frame ocr. probe scenarioTimeout j = Probed frame ocr"
  "probe scenarioTimeout 3 = Probed (replicate 2000 0) (Inr [])"
  "probe scenarioTimeout 4 = Probed (replicate 3000 0) (Inr [])"
  by (simp_all add: scenarioTimeout_def scenario_def)

theorem probe_failure_aborts_scan_witness:
  "(2 :: nat) < numPoints
   \<and> probe scenarioTimeout 2 = ProbeThrows ''Navigation timeout of 60000 ms exceeded''
   \<and> metadataFile (captureHistoricalImagery scenarioTimeout []) = None
   \<and> reportFile (captureHistoricalImagery scenarioTimeout []) = None
   \<and> (\<exists>lg'. finalLog (captureHistoricalImagery scenarioTimeout []) =
          lg' @ [Line ''Error: Navigation timeout of 60000 ms exceeded'', Line ''Browser closed''])
   \<and> captureHistoricalImagery (scenarioTimeout\<lparr>probe := (\<lambda>j. if j \<le> 2 then probe scenarioTimeout j
                                                           else ProbeThrows ''closed'')\<rparr>) [] =
       captureHistoricalImagery scenarioTimeout []"
proof -
  have n: "(2 :: nat) < numPoints"
    by (simp add: numPoints_def)
  note t = probe_failure_aborts_scan [OF n scenarioTimeout_probes(1,2), of "[]"]
  have 1: "metadataFile (captureHistoricalImagery scenarioTimeout []) = None"
    by (rule t [THEN conjunct1])
  have 2: "reportFile (captureHistoricalImagery scenarioTimeout []) = None"
    by (rule t [THEN conjunct2, THEN conjunct1])
  have 3: "\<exists>lg'. finalLog (captureHistoricalImagery scenarioTimeout []) =
          lg' @ [Line ''Error: Navigation timeout of 60000 ms exceeded'', Line ''Browser closed'']"
    using t [THEN conjunct2, THEN conjunct2, THEN conjunct1] by simp
  have 4: "captureHistoricalImagery (scenarioTimeout\<lparr>probe := (\<lambda>j. if j \<le> 2 then probe scenarioTimeout j
                                                           else ProbeThrows ''closed'')\<rparr>) [] =
       captureHistoricalImagery scenarioTimeout []"
    by (rule t [THEN conjunct2, THEN conjunct2, THEN conjunct2, THEN spec, THEN mp]) simp
  from n scenarioTimeout_probes(1) 1 2 3 4 show ?thesis
    by blast
qed

text \<open>
  C7 (as stated) fails: with a timeout in the third probe, the fifth probe would return a
  changed frame, yet the run ends without metadata and without a report.
\<close>

theorem probe_failure_counterexample:
  "probe scenarioTimeout 2 = ProbeThrows ''Navigation timeout of 60000 ms exceeded''
   \<and> probe scenarioTimeout 4 = Probed (replicate 3000 0) (Inr [])
   \<and> metadataFile (captureHistoricalImagery scenarioTimeout []) = None
   \<and> reportFile (captureHistoricalImagery scenarioTimeout []) = None"
proof -
  have n: "(2 :: nat) < numPoints"
    by (simp add: numPoints_def)
  obtain lg' where c: "captureHistoricalImagery scenarioTimeout [] =
           \<lparr>finalLog = lg' @ [Line (''Error: '' @ ''Navigation timeout of 60000 ms exceeded''),
                              Line ''Browser closed''],
            metadataFile = None, reportFile = None,
            completion = (case errorScreenshot scenarioTimeout of None \<Rightarrow> Fulfilled
                          | Some message' \<Rightarrow> Rejected message')\<rparr>"
    using capture_aborts [OF n scenarioTimeout_probes(1,2)] by blast
  have "metadataFile (captureHistoricalImagery scenarioTimeout []) = None"
    and "reportFile (captureHistoricalImagery scenarioTimeout []) = None"
    by (simp_all only: c outcome.simps)
  with scenarioTimeout_probes(1,4) show ?thesis
    by blast
qed












section \<open>Properties of the refined script\<close>

lemma activationLoop_never:
  assumes "\<not> buttonVisible env 0" "\<not> buttonVisible env 1" "\<not> buttonVisible env 2"
  shows "activationLoop env False 0 lg =
           (False, 3,
            lg @ [Line ''Attempt 1: Clicking on history icon at (520, 37)...'',
                  Line ''Clicked history icon'',
                  Line ''No \"Deactivate\" button found. Retrying...'',
                  Line ''Attempt 2: Clicking on history icon at (520, 37)...'',
                  Line ''Clicked history icon'',
                  Line ''No \"Deactivate\" button found. Retrying...'',
                  Line ''Attempt 3: Clicking on history icon at (520, 37)...'',
                  Line ''Clicked history icon'',
                  Line ''No \"Deactivate\" button found. Retrying...''])"
proof -
  have b: "\<not> buttonVisible env (Suc 0)" "\<not> buttonVisible env (Suc (Suc 0))"
    using assms(2,3) by (simp_all add: eval_nat_numeral)
  have 3: "activationLoop env False (Suc (Suc (Suc 0))) l = (False, 3, l)" for l
    by (simp add: activationLoop.simps [of env False "Suc (Suc (Suc 0))"] MAX_RETRIES_def)
  have 2: "activationLoop env False (Suc (Suc 0)) l =
      (False, 3, l @ [Line ''Attempt 3: Clicking on history icon at (520, 37)...'',
                      Line ''Clicked history icon'',
                      Line ''No \"Deactivate\" button found. Retrying...''])" for l
    using b(2)
    by (simp add: activationLoop.simps [of env False "Suc (Suc 0)"] MAX_RETRIES_def Let_def
          log_def 3 show_nat.simps)
  have 1: "activationLoop env False (Suc 0) l =
      (False, 3, l @ [Line ''Attempt 2: Clicking on history icon at (520, 37)...'',
                      Line ''Clicked history icon'',
                      Line ''No \"Deactivate\" button found. Retrying...'',
                      Line ''Attempt 3: Clicking on history icon at (520, 37)...'',
                      Line ''Clicked history icon'',
                      Line ''No \"Deactivate\" button found. Retrying...''])" for l
    using b(1)
    by (simp add: activationLoop.simps [of env False "Suc 0"] MAX_RETRIES_def Let_def
          log_def 2 show_nat.simps)
  show ?thesis
    using assms(1)
    by (simp add: activationLoop.simps [of env False 0] MAX_RETRIES_def Let_def log_def 1
          show_nat.simps)
qed

lemma refined_never_activated:
  assumes "\<forall>k<MAX_RETRIES. \<not> buttonVisible env k"
  shows "captureHistoricalImagery_refined env lg =
     \<lparr>refinedLog =
        lg @ [Line ''Attempt 1: Clicking on history icon at (520, 37)...'',
              Line ''Clicked history icon'',
              Line ''No \"Deactivate\" button found. Retrying...'',
              Line ''Attempt 2: Clicking on history icon at (520, 37)...'',
              Line ''Clicked history icon'',
              Line ''No \"Deactivate\" button found. Retrying...'',
              Line ''Attempt 3: Clicking on history icon at (520, 37)...'',
              Line ''Clicked history icon'',
              Line ''No \"Deactivate\" button found. Retrying...'',
              Line ''ERROR: Failed to activate historical imagery mode after multiple attempts'']
           @ (case errorShot env of None \<Rightarrow> []
              | Some message \<Rightarrow> [Line (''Failed to take error screenshot: '' @ message)])
           @ [Line ''Browser closed''],
      capturedDatesFile = None,
      refinedCompletion = Fulfilled\<rparr>"
proof -
  have "\<not> buttonVisible env 0" "\<not> buttonVisible env 1" "\<not> buttonVisible env 2"
    using assms by (simp_all add: MAX_RETRIES_def)
  note a = activationLoop_never [OF this]
  show ?thesis
    by (cases "errorShot env") (simp_all add: captureHistoricalImagery_refined_def a log_def)
qed

lemma refined_fulfilled:
  "refinedCompletion (captureHistoricalImagery_refined env lg) = Fulfilled"
  by (simp add: captureHistoricalImagery_refined_def Let_def split_beta split: sum.splits)

text \<open>
  C9 (as amended). If the \<^verbatim>\<open>Deactivate Historical Imagery\<close> button does not show after
  \<^verbatim>\<open>MAX_RETRIES = 3\<close> attempts, the refined script raises an error with the message
  \<^verbatim>\<open>Failed to activate historical imagery mode after multiple attempts\<close> before it clicks
  on the timeline: the log holds the three attempts and no line of the scan, and no summary
  of dates is written. The error is caught by the handler of the run, which logs it, tries a
  screenshot and lets the browser be closed; it is not raised again, so the call completes
  normally and the caller sees no error.
\<close>

theorem activation_failure_is_logged:
  assumes "\<forall>k<MAX_RETRIES. \<not> buttonVisible env k"
  shows "refinedLog (captureHistoricalImagery_refined env lg) =
        lg @ [Line ''Attempt 1: Clicking on history icon at (520, 37)...'',
              Line ''Clicked history icon'',
              Line ''No \"Deactivate\" button found. Retrying...'',
              Line ''Attempt 2: Clicking on history icon at (520, 37)...'',
              Line ''Clicked history icon'',
              Line ''No \"Deactivate\" button found. Retrying...'',
              Line ''Attempt 3: Clicking on history icon at (520, 37)...'',
              Line ''Clicked history icon'',
              Line ''No \"Deactivate\" button found. Retrying...'',
              Line ''ERROR: Failed to activate historical imagery mode after multiple attempts'']
           @ (case errorShot env of None \<Rightarrow> []
              | Some message \<Rightarrow> [Line (''Failed to take error screenshot: '' @ message)])
           @ [Line ''Browser closed'']
       \<and> capturedDatesFile (captureHistoricalImagery_refined env lg) = None
       \<and> refinedCompletion (captureHistoricalImagery_refined env lg) = Fulfilled"
  by (simp only: refined_never_activated [OF assms] outcome_refined.simps simp_thms)

theorem activation_failure_is_logged_witness:
  "\<not> buttonVisible neverActivated 0 \<and> \<not> buttonVisible neverActivated 1
   \<and> \<not> buttonVisible neverActivated 2
   \<and> refinedLog (captureHistoricalImagery_refined neverActivated []) =
        [Line ''Attempt 1: Clicking on history icon at (520, 37)...'',
         Line ''Clicked history icon'',
         Line ''No \"Deactivate\" button found. Retrying...'',
         Line ''Attempt 2: Clicking on history icon at (520, 37)...'',
         Line ''Clicked history icon'',
         Line ''No \"Deactivate\" button found. Retrying...'',
         Line ''Attempt 3: Clicking on history icon at (520, 37)...'',
         Line ''Clicked history icon'',
         Line ''No \"Deactivate\" button found. Retrying...'',
         Line ''ERROR: Failed to activate historical imagery mode after multiple attempts'',
         Line ''Browser closed'']
   \<and> capturedDatesFile (captureHistoricalImagery_refined neverActivated []) = None
   \<and> refinedCompletion (captureHistoricalImagery_refined neverActivated []) = Fulfilled"
proof -
  have n: "\<forall>k<MAX_RETRIES. \<not> buttonVisible neverActivated k"
    by (simp add: neverActivated_def)
  have e: "errorShot neverActivated = None"
    by (simp add: neverActivated_def)
  have b: "\<not> buttonVisible neverActivated 0" "\<not> buttonVisible neverActivated 1"
    "\<not> buttonVisible neverActivated 2"
    by (simp_all add: neverActivated_def)
  show ?thesis
    using activation_failure_is_logged [OF n, of "[]"] b by (simp add: e)
qed

text \<open>
  C9 (as stated) fails in its last part: when the button never shows, the promise returned
  to the caller is fulfilled, not rejected with the error.
\<close>

theorem activation_failure_counterexample:
  "\<not> buttonVisible neverActivated 0 \<and> \<not> buttonVisible neverActivated 1
   \<and> \<not> buttonVisible neverActivated 2
   \<and> refinedCompletion (captureHistoricalImagery_refined neverActivated []) = Fulfilled
   \<and> refinedCompletion (captureHistoricalImagery_refined neverActivated []) \<noteq>
       Rejected ''Failed to activate historical imagery mode after multiple attempts''"
  by (simp add: refined_fulfilled neverActivated_def)

section \<open>Properties of the matcher\<close>



lemma consume_consume: "map (\<lambda>x. x @ b) (map (\<lambda>x. x @ a) accs) = map (\<lambda>x. x @ a @ b) accs"
  by simp










lemma m_Lit:
  assumes "length a = length l" and "canon ic a = canon ic l"
  shows "m ic (Lit l # r) (a @ b) accs caps = m ic r b (map (\<lambda>x. x @ a) accs) caps"
  using assms by (simp add: m.simps starts_with_def consume_def)


section \<open>Properties of the character classes\<close>

lemma to_lower_cases: "to_lower c = c \<or> lower_az (to_lower c)"
proof (cases "map_of (zip ''ABCDEFGHIJKLMNOPQRSTUVWXYZ'' ''abcdefghijklmnopqrstuvwxyz'') c")
  case None
  then show ?thesis by (simp add: to_lower_def)
next
  case (Some l)
  then have "l \<in> set ''abcdefghijklmnopqrstuvwxyz''"
    by (meson map_of_SomeD set_zip_rightD)
  with Some show ?thesis
    by (simp only: to_lower_def lower_az_def option.case simp_thms)
qed

lemma to_upper_cases: "to_upper c = c \<or> upper_AZ (to_upper c)"
proof (cases "map_of (zip ''abcdefghijklmnopqrstuvwxyz'' ''ABCDEFGHIJKLMNOPQRSTUVWXYZ'') c")
  case None
  then show ?thesis by (simp add: to_upper_def)
next
  case (Some u)
  then have "u \<in> set ''ABCDEFGHIJKLMNOPQRSTUVWXYZ''"
    by (meson map_of_SomeD set_zip_rightD)
  with Some show ?thesis
    by (simp only: to_upper_def upper_AZ_def option.case simp_thms)
qed

lemma digits_table:
  "list_all (\<lambda>c. to_lower c = c \<and> to_upper c = c \<and> \<not> whitespace c \<and> \<not> lower_az c
              \<and> \<not> upper_AZ c \<and> c \<noteq> CHR '','' \<and> c \<noteq> CHR ''/'' \<and> c \<noteq> CHR ''e'')
     ''0123456789''"
  by code_simp

lemma digitD:
  assumes "digit c"
  shows "to_lower c = c" "to_upper c = c" "\<not> whitespace c" "\<not> lower_az c" "\<not> upper_AZ c"
    "c \<noteq> CHR '',''" "c \<noteq> CHR ''/''" "c \<noteq> CHR ''e''"
  using assms digits_table unfolding digit_def list_all_iff by blast+

lemma lower_table:
  "list_all (\<lambda>c. \<not> digit c \<and> c \<noteq> CHR ''/'' \<and> \<not> whitespace c \<and> c \<noteq> CHR '','')
     ''abcdefghijklmnopqrstuvwxyz''"
  by code_simp

lemma lower_azD:
  assumes "lower_az c"
  shows "\<not> digit c" "c \<noteq> CHR ''/''" "\<not> whitespace c" "c \<noteq> CHR '',''"
  using assms lower_table unfolding lower_az_def list_all_iff by blast+

lemma upper_table:
  "list_all (\<lambda>c. \<not> digit c \<and> c \<noteq> CHR ''/'' \<and> \<not> whitespace c \<and> c \<noteq> CHR '','')
     ''ABCDEFGHIJKLMNOPQRSTUVWXYZ''"
  by code_simp

lemma upper_AZD:
  assumes "upper_AZ c"
  shows "\<not> digit c" "c \<noteq> CHR ''/''" "\<not> whitespace c" "c \<noteq> CHR '',''"
  using assms upper_table unfolding upper_AZ_def list_all_iff by blast+

lemma cls_digit [simp]: "cls ic digit c = digit c"
proof (cases ic)
  case False
  then show ?thesis by (simp add: cls_def)
next
  case True
  have "digit (to_lower c) \<Longrightarrow> digit c"
    using to_lower_cases [of c] lower_azD(1) by auto
  moreover have "digit (to_upper c) \<Longrightarrow> digit c"
    using to_upper_cases [of c] upper_AZD(1) by auto
  ultimately show ?thesis
    using True digitD(1) [of c] by (auto simp add: cls_def)
qed



section \<open>Properties of the canonical date\<close>














section \<open>Properties of the date extraction\<close>



















end
